theory Spec2Isabelle
  imports Main "HOL-Library.Multiset"
begin

section \<open>Data model of src/main.go\<close>

text \<open>
  A Go \<open>error\<close> is modelled by its message; the nil error is \<open>None\<close> of
  \<open>error option\<close>.
\<close>

type_synonym error = string

text \<open>\<open>Config\<close>, lines 27-35: the seven fields of the struct, no other option exists.\<close>

record Config =
  Port :: string
  JiraUrl :: string
  JiraUser :: string
  JiraToken :: string
  Project :: string
  DefaultStatus :: string
  AddLabels :: "string list"

text \<open>\<open>Release\<close>, lines 39-43.\<close>

record Release =
  Provider :: string
  Project :: string
  Version :: string

text \<open>
  JSON documents: what the webhook body holds and what an update request carries.
  A number keeps its literal text.
\<close>

datatype json =
    JNull
  | JBool bool
  | JNumber string
  | JString string
  | JArray "json list"
  | JObject "(string \<times> json) list"

text \<open>
  The part of go-jira's \<open>Issue\<close> that the handler reads or writes. \<open>Created\<close> is an
  instant (nanoseconds counted from the zero \<open>time.Time\<close>), so that \<open>Before\<close> is \<open><\<close>.
  \<open>Project\<close> holds \<open>Project.Key\<close>, \<open>Type\<close> holds \<open>Type.Name\<close>, \<open>Status\<close> is the
  pointer to a status, by its name. \<open>Fields\<close> of an issue is a pointer: \<open>None\<close> is nil,
  an issue without fields.
\<close>

record IssueFields =
  Description :: string
  Project :: string
  Type :: string
  Status :: "string option"
  Labels :: "string list"
  Summary :: string
  Created :: int

record Issue =
  ID :: string
  Key :: string
  Fields :: "IssueFields option"

text \<open>
  A string given by \<open>fmt.Sprintf\<close> with the verb \<open>%q\<close> is kept as the format and the
  arguments of the call: what \<open>%q\<close> prints for a string depends on the Unicode tables
  of the Go runtime, and the string is a function of the two.
\<close>

datatype formatted = Formatted string "string list"

text \<open>
  A \<open>*jira.Response\<close>, when it is not nil, is modelled by what \<open>io.ReadAll\<close> of its body
  gives: the bytes read and the read error.
\<close>

record Response =
  Body :: "string \<times> error option"

text \<open>
  The tracker client \<open>jiraClient\<close>: the three calls of the handler, each with the tuple
  it returns. Pointers that the client returns are options: \<open>None\<close> is nil.
\<close>

record Client =
  Search :: "formatted \<Rightarrow> Issue list \<times> Response option \<times> error option"
  Create :: "Issue \<Rightarrow> Issue option \<times> Response option \<times> error option"
  UpdateIssue :: "string \<Rightarrow> json \<Rightarrow> Response option \<times> error option"

text \<open>
  An HTTP request: its method and its body, as the first JSON value that the decoder reads
  from it (\<open>Inr\<close>), or the error of reading one (\<open>Inl\<close>: empty or malformed body).
\<close>

record Request =
  Method :: string
  Body :: "error + json"

text \<open>Calls that reach the tracker client, in order.\<close>

datatype call =
    SearchCall formatted
  | CreateCall Issue
  | UpdateIssueCall string json

text \<open>A \<open>logger.Printf\<close>: the format string and its arguments.\<close>

datatype logArg = ArgStr string | ArgInt int | ArgBytes string | ArgReader

datatype logEntry = Printf string "logArg list"

text \<open>
  What a run of the handler leaves behind: the status and body written to the
  \<open>ResponseWriter\<close> (no status written means that net/http answers 200), the log and the
  calls made to the tracker client.
\<close>

record World =
  status :: "nat option"
  written :: string
  logs :: "logEntry list"
  calls :: "call list"

text \<open>A handler returns, or panics (a nil pointer is dereferenced).\<close>

datatype completion = Returned | Panicked

definition world0 :: World where
  "world0 = \<lparr>status = None, written = [], logs = [], calls = []\<rparr>"

definition logPrintf :: "string \<Rightarrow> logArg list \<Rightarrow> World \<Rightarrow> World" where
  "logPrintf format args s = s\<lparr>logs := logs s @ [Printf format args]\<rparr>"

definition called :: "call \<Rightarrow> World \<Rightarrow> World" where
  "called c s = s\<lparr>calls := calls s @ [c]\<rparr>"

text \<open>\<open>http.StatusText\<close> at the three codes that the handler uses.\<close>

definition StatusText :: "nat \<Rightarrow> string" where
  "StatusText code =
     (if code = 405 then ''Method Not Allowed''
      else if code = 400 then ''Bad Request''
      else if code = 500 then ''Internal Server Error''
      else [])"

text \<open>\<open>http.Error\<close>: the first status written stays, the text is printed with a newline.\<close>

definition httpError :: "string \<Rightarrow> nat \<Rightarrow> World \<Rightarrow> World" where
  "httpError text code s =
     s\<lparr>status := (case status s of None \<Rightarrow> Some code | Some c \<Rightarrow> Some c),
       written := written s @ text @ [CHR 0x0A]\<rparr>"

section \<open>Formatting\<close>

text \<open>
  \<open>fmt.Sprintf\<close> on string arguments, for formats whose only verb is \<open>%v\<close>: it prints
  the string as it is; a verb without an argument prints that it is missing. Other
  characters are copied.
\<close>

fun Sprintf :: "string \<Rightarrow> string list \<Rightarrow> string" where
  "Sprintf [] args = []"
| "Sprintf [c] args = (if c = CHR ''%'' then ''%!(NOVERB)'' else [c])"
| "Sprintf (c # v # rest) args =
     (if c = CHR ''%'' \<and> v = CHR ''v'' then
        (case args of
           [] \<Rightarrow> ''%!v(MISSING)'' @ Sprintf rest []
         | a # as \<Rightarrow> a @ Sprintf rest as)
      else c # Sprintf (v # rest) args)"

section \<open>Rendering\<close>

text \<open>\<open>IssueSummary\<close>, lines 46-48.\<close>

definition IssueSummary :: "Release \<Rightarrow> string" where
  "IssueSummary release =
     Sprintf ''Update %v to version %v'' [Release.Project release, Version release]"

text \<open>\<open>JiraIssue\<close>, lines 50-68. The issue built has the zero \<open>ID\<close>, \<open>Key\<close> and \<open>Created\<close>.\<close>

definition JiraIssue :: "Config \<Rightarrow> Release \<Rightarrow> Issue" where
  "JiraIssue config release =
     (let labels = AddLabels config @ [Release.Project release] in
      \<lparr>ID = [], Key = [],
       Fields = Some \<lparr>
         Description = ''Update issue generated by https://github.2rioffice.com/platform/jelease using newreleases.io.'',
         Project = Config.Project config,
         Type = ''Task'',
         Status = Some (DefaultStatus config),
         Labels = labels,
         Summary = IssueSummary release,
         Created = 0\<rparr>\<rparr>)"

section \<open>Decoding the webhook body\<close>

text \<open>
  \<open>decoder.Decode(&release)\<close>, line 87, is encoding/json of the Go standard library on
  the struct \<open>Release\<close> with its tags. A member's key selects a field when it equals the
  tag up to case folding: ASCII letters, and the two letters outside ASCII that fold to
  \<open>s\<close> and \<open>k\<close> (U+017F and U+212A, here in UTF-8).
\<close>

definition toLower :: "char \<Rightarrow> char" where
  "toLower c =
     (if (65::nat) \<le> of_char c \<and> of_char c \<le> (90::nat)
      then char_of (of_char c + (32::nat)) else c)"

fun foldName :: "string \<Rightarrow> string" where
  "foldName [] = []"
| "foldName (c # cs) =
     (if c = CHR 0xC5 \<and> take 1 cs = [CHR 0xBF] then CHR ''s'' # foldName (drop 1 cs)
      else if c = CHR 0xE2 \<and> take 2 cs = [CHR 0x84, CHR 0xAA] then CHR ''k'' # foldName (drop 2 cs)
      else toLower c # foldName cs)"

definition kindOf :: "json \<Rightarrow> string" where
  "kindOf j =
     (case j of JNull \<Rightarrow> ''null'' | JBool b \<Rightarrow> ''bool'' | JNumber n \<Rightarrow> ''number''
      | JString s \<Rightarrow> ''string'' | JArray xs \<Rightarrow> ''array'' | JObject ms \<Rightarrow> ''object'')"

text \<open>
  Storing a JSON value into a string field: a string is stored, null has no effect,
  anything else is a type error and leaves the field as it is.
\<close>

definition storeString :: "string \<Rightarrow> json \<Rightarrow> string \<Rightarrow> error + string" where
  "storeString name j old =
     (case j of
        JString s \<Rightarrow> Inr s
      | JNull \<Rightarrow> Inr old
      | _ \<Rightarrow> Inl (''json: cannot unmarshal '' @ kindOf j @ '' into Go struct field Release.''
                  @ name @ '' of type string''))"

definition saveError :: "error option \<Rightarrow> error \<Rightarrow> error option" where
  "saveError saved e = (case saved of None \<Rightarrow> Some e | Some e0 \<Rightarrow> Some e0)"

text \<open>
  The members of an object are stored one after the other; unknown keys are skipped; the
  first type error is saved and decoding goes on.
\<close>

fun decodeMembers :: "(string \<times> json) list \<Rightarrow> Release \<times> error option \<Rightarrow> Release \<times> error option" where
  "decodeMembers [] st = st"
| "decodeMembers ((k, v) # ms) (release, saved) =
     (let name = foldName k in
      if name = ''provider'' then
        (case storeString name v (Provider release) of
           Inr s \<Rightarrow> decodeMembers ms (release\<lparr>Provider := s\<rparr>, saved)
         | Inl e \<Rightarrow> decodeMembers ms (release, saveError saved e))
      else if name = ''project'' then
        (case storeString name v (Release.Project release) of
           Inr s \<Rightarrow> decodeMembers ms (release\<lparr>Release.Project := s\<rparr>, saved)
         | Inl e \<Rightarrow> decodeMembers ms (release, saveError saved e))
      else if name = ''version'' then
        (case storeString name v (Version release) of
           Inr s \<Rightarrow> decodeMembers ms (release\<lparr>Version := s\<rparr>, saved)
         | Inl e \<Rightarrow> decodeMembers ms (release, saveError saved e))
      else decodeMembers ms (release, saved))"

definition release0 :: Release where
  "release0 = \<lparr>Provider = [], Project = [], Version = []\<rparr>"

definition Decode :: "error + json \<Rightarrow> error + Release" where
  "Decode body =
     (case body of
        Inl e \<Rightarrow> Inl e
      | Inr JNull \<Rightarrow> Inr release0
      | Inr (JObject ms) \<Rightarrow>
          (case decodeMembers ms (release0, None) of
             (release, None) \<Rightarrow> Inr release
           | (release, Some e) \<Rightarrow> Inl e)
      | Inr j \<Rightarrow> Inl (''json: cannot unmarshal '' @ kindOf j @ '' into Go value of type main.Release''))"

section \<open>The tracker query\<close>

text \<open>Line 95.\<close>

definition existingIssuesQuery :: "Config \<Rightarrow> Release \<Rightarrow> formatted" where
  "existingIssuesQuery config release =
     Formatted ''status = %q and labels = %q'' [DefaultStatus config, Release.Project release]"

section \<open>Choosing the oldest issue\<close>

text \<open>The zero \<open>jira.Issue\<close> of \<open>var oldestExistingIssue\<close>, line 128: no fields.\<close>

definition issue0 :: Issue where
  "issue0 = \<lparr>ID = [], Key = [], Fields = None\<rparr>"

text \<open>
  The loop of lines 130-143 over \<open>existingIssues\<close>, from index \<open>i\<close> on, on the pair
  \<open>(oldestExistingIssue, duplicateIssueKeys)\<close>. From the second issue on, line 135 reads
  the fields of the current issue and line 136 those of the oldest one so far: the loop
  panics (\<open>None\<close>) when either has none.
\<close>

fun oldestLoop :: "nat \<Rightarrow> Issue list \<Rightarrow> Issue \<times> string list \<Rightarrow> (Issue \<times> string list) option" where
  "oldestLoop i [] st = Some st"
| "oldestLoop i (existingIssue # rest) (oldestExistingIssue, duplicateIssueKeys) =
     (if i = 0 then oldestLoop (Suc i) rest (existingIssue, duplicateIssueKeys)
      else
        (case Fields existingIssue of
           None \<Rightarrow> None
         | Some current \<Rightarrow>
             (case Fields oldestExistingIssue of
                None \<Rightarrow> None
              | Some oldest \<Rightarrow>
                  if Created current < Created oldest
                  then oldestLoop (Suc i) rest
                         (existingIssue, duplicateIssueKeys @ [Key oldestExistingIssue])
                  else oldestLoop (Suc i) rest
                         (oldestExistingIssue, duplicateIssueKeys @ [Key existingIssue]))))"

definition selectOldest :: "Issue list \<Rightarrow> (Issue \<times> string list) option" where
  "selectOldest existingIssues = oldestLoop 0 existingIssues (issue0, [])"

text \<open>\<open>strings.Join\<close>.\<close>

fun Join :: "string list \<Rightarrow> string \<Rightarrow> string" where
  "Join [] sep = []"
| "Join [x] sep = x"
| "Join (x # y # ys) sep = x @ sep @ Join (y # ys) sep"

section \<open>The webhook handler\<close>

text \<open>
  The request built at lines 152-165: the map with the one key \<open>update\<close>, as the JSON
  document that its struct tags give.
\<close>

definition summaryUpdates :: "Release \<Rightarrow> json" where
  "summaryUpdates release =
     JObject [(''update'',
       JObject [(''summary'', JArray [JObject [(''set'', JString (IssueSummary release))]])])]"

text \<open>
  Lines 97-107: the search failed. \<open>resp.Body\<close> is read first: with a nil \<open>resp\<close> the
  handler panics there.
\<close>

definition searchFailed :: "Response option \<Rightarrow> error \<Rightarrow> World \<Rightarrow> completion \<times> World" where
  "searchFailed resp err s =
     (case resp of
        None \<Rightarrow> (Panicked, s)
      | Some r \<Rightarrow>
          (let (body, readErr) = Response.Body r;
               errCtx = ''error response from Jira when searching previous issues'';
               s1 = (case readErr of
                       Some e \<Rightarrow> logPrintf ''%v: %v. Failed to decode response body: %v''
                                  [ArgStr errCtx, ArgStr err, ArgStr body] s
                     | None \<Rightarrow> logPrintf ''%v: %v. Response body: %v''
                                  [ArgStr errCtx, ArgStr err, ArgStr body] s)
           in (Returned, httpError (StatusText 500) 500 s1)))"

text \<open>Line 123: \<open>newIssue.ID\<close> is read, a nil \<open>newIssue\<close> panics.\<close>

definition logCreated :: "Issue option \<Rightarrow> World \<Rightarrow> completion \<times> World" where
  "logCreated newIssue s =
     (case newIssue of
        None \<Rightarrow> (Panicked, s)
      | Some n \<Rightarrow> (Returned, logPrintf (''Created issue %v'' @ [CHR 0x0A]) [ArgStr (ID n)] s))"

text \<open>
  Lines 109-125: no previous issue. After the error response of line 121 the block has
  no \<open>return\<close>: control goes on to line 123.
\<close>

definition createIssue :: "Config \<Rightarrow> Client \<Rightarrow> Release \<Rightarrow> World \<Rightarrow> completion \<times> World" where
  "createIssue config jiraClient release s =
     (let i = JiraIssue config release;
          (newIssue, response, err) = Create jiraClient i;
          s1 = called (CreateCall i) s
      in case err of
           None \<Rightarrow> logCreated newIssue s1
         | Some e \<Rightarrow>
             (case response of
                None \<Rightarrow> (Panicked, s1)
              | Some r \<Rightarrow>
                  (let (body, readErr) = Response.Body r;
                       errCtx = ''error response from Jira when creating issue'';
                       s2 = (case readErr of
                               Some re \<Rightarrow> logPrintf ''%v: %v. Failed to decode response body: %v''
                                          [ArgStr errCtx, ArgStr e, ArgStr re] s1
                             | None \<Rightarrow> logPrintf ''%v: %v. Response body: %v''
                                          [ArgStr errCtx, ArgStr e, ArgStr body] s1);
                       s3 = httpError (StatusText 500) 500 s2
                   in logCreated newIssue s3)))"

text \<open>
  Lines 127-178: there are previous issues, the oldest one is updated. Line 158 reads
  the fields of the oldest issue for its previous summary, before the update is sent:
  without fields the handler panics there.
\<close>

definition updateOldest :: "Client \<Rightarrow> Release \<Rightarrow> Issue list \<Rightarrow> World \<Rightarrow> completion \<times> World" where
  "updateOldest jiraClient release existingIssues s =
     (case selectOldest existingIssues of
        None \<Rightarrow> (Panicked, s)
      | Some (oldestExistingIssue, duplicateIssueKeys) \<Rightarrow>
          (let s1 = (if length duplicateIssueKeys > 0
                     then logPrintf ''Ignoring the following possible duplicate issues in favor of older issue %v: %v''
                            [ArgStr (Key oldestExistingIssue), ArgStr (Join duplicateIssueKeys '', '')] s
                     else s)
           in case Fields oldestExistingIssue of
                None \<Rightarrow> (Panicked, s1)
              | Some oldest \<Rightarrow>
                  (let previousSummary = Summary oldest;
                       updates = summaryUpdates release;
                       (resp, err) = UpdateIssue jiraClient (ID oldestExistingIssue) updates;
                       s2 = called (UpdateIssueCall (ID oldestExistingIssue) updates) s1
                   in case err of
                        Some e \<Rightarrow>
                          (case resp of
                             None \<Rightarrow> (Panicked, s2)
                           | Some r \<Rightarrow>
                               (let (body, readErr) = Response.Body r;
                                    errCtx = ''error response from Jira when updating issue'';
                                    s3 = (case readErr of
                                            Some re \<Rightarrow> logPrintf ''%v: %v. Failed to decode response body: %v''
                                                       [ArgStr errCtx, ArgStr e, ArgStr re] s2
                                          | None \<Rightarrow> logPrintf ''%v: %v. Response body: %v''
                                                       [ArgStr errCtx, ArgStr e, ArgBytes body] s2)
                                in (Returned, httpError (StatusText 500) 500 s3)))
                      | None \<Rightarrow>
                          (Returned, logPrintf ''Updated issue summary from %q to %q''
                                       [ArgStr previousSummary, ArgStr (IssueSummary release)] s2))))"

text \<open>\<open>handlePostWebhook\<close>, lines 77-179.\<close>

definition handlePostWebhook :: "Config \<Rightarrow> Client \<Rightarrow> Request \<Rightarrow> completion \<times> World" where
  "handlePostWebhook config jiraClient r =
     (if Method r \<noteq> ''POST'' then
        (Returned,
         logPrintf ''Rejected request because: %v %v. Attempted method: %v''
           [ArgInt 405, ArgStr (StatusText 405), ArgStr (Method r)]
           (httpError (StatusText 405) 405 world0))
      else
        (case Decode (Request.Body r) of
           Inl err \<Rightarrow>
             (Returned,
              logPrintf (''Couldn't decode request body to json: %v'' @ [CHR 0x0A]
                           @ '' error: %v'' @ [CHR 0x0A])
                [ArgReader, ArgStr err]
                (httpError (StatusText 400) 400 world0))
         | Inr release \<Rightarrow>
             (let existingIssuesQuery = existingIssuesQuery config release;
                  (existingIssues, resp, err) = Search jiraClient existingIssuesQuery;
                  s = called (SearchCall existingIssuesQuery) world0
              in case err of
                   Some e \<Rightarrow> searchFailed resp e s
                 | None \<Rightarrow>
                     if length existingIssues = 0
                     then createIssue config jiraClient release s
                     else updateOldest jiraClient release existingIssues s)))"

section \<open>Templates of src/pkg/config/template.go\<close>

text \<open>
  A parsed template is its list of nodes. The part of text/template (Go standard
  library) that is modelled: text, and actions that print one field of the data,
  \<open>{{.Name}}\<close>. Errors are kept by their cause.
\<close>

datatype node = TextNode string | FieldNode string

type_synonym Template = "node list"

datatype templateError =
    UnclosedAction
  | UnsupportedAction string
  | CantEvaluateField string

definition isIdentChar :: "char \<Rightarrow> bool" where
  "isIdentChar c =
     (let n = (of_char c :: nat) in
      (65 \<le> n \<and> n \<le> 90) \<or> (97 \<le> n \<and> n \<le> 122) \<or> (48 \<le> n \<and> n \<le> 57) \<or> n = 95)"

definition isDigit :: "char \<Rightarrow> bool" where
  "isDigit c = ((48::nat) \<le> of_char c \<and> of_char c \<le> (57::nat))"

definition trimBlanks :: "string \<Rightarrow> string" where
  "trimBlanks s = rev (dropWhile (\<lambda>c. c = CHR '' '') (rev (dropWhile (\<lambda>c. c = CHR '' '') s)))"

text \<open>The text between \<open>{{\<close> and \<open>}}\<close>: a dot and the name of a field, or not modelled.\<close>

definition fieldAction :: "string \<Rightarrow> node option" where
  "fieldAction a =
     (case trimBlanks a of
        [] \<Rightarrow> None
      | c # name \<Rightarrow>
          if c = CHR ''.'' \<and> name \<noteq> [] \<and> list_all isIdentChar name \<and> \<not> isDigit (hd name)
          then Some (FieldNode name) else None)"

definition textNodes :: "string \<Rightarrow> node list" where
  "textNodes t = (if t = [] then [] else [TextNode t])"

text \<open>
  Parsing, with the text or the action read so far in \<open>acc\<close> and the nodes before it in
  \<open>out\<close>.
\<close>

fun parseFrom :: "string \<Rightarrow> bool \<Rightarrow> string \<Rightarrow> node list \<Rightarrow> templateError + Template" where
  "parseFrom [] inAction acc out =
     (if inAction then Inl UnclosedAction else Inr (out @ textNodes acc))"
| "parseFrom [c] inAction acc out =
     (if inAction then Inl UnclosedAction else Inr (out @ textNodes (acc @ [c])))"
| "parseFrom (c1 # c2 # cs) inAction acc out =
     (if \<not> inAction \<and> c1 = CHR ''{'' \<and> c2 = CHR ''{''
      then parseFrom cs True [] (out @ textNodes acc)
      else if inAction \<and> c1 = CHR ''}'' \<and> c2 = CHR ''}''
      then (case fieldAction acc of
              None \<Rightarrow> Inl (UnsupportedAction acc)
            | Some n \<Rightarrow> parseFrom cs False [] (out @ [n]))
      else parseFrom (c2 # cs) inAction (acc @ [c1]) out)"

definition Parse :: "string \<Rightarrow> templateError + Template" where
  "Parse text = parseFrom text False [] []"

text \<open>\<open>Set\<close>, lines 46-53: the template becomes what the value parses to.\<close>

definition Set :: "string \<Rightarrow> templateError + Template" where
  "Set v = (case Parse v of Inl err \<Rightarrow> Inl err | Inr parsed \<Rightarrow> Inr parsed)"

text \<open>
  \<open>Execute\<close> on data given by its exported fields: text is copied, a field prints its
  value, a field that the data does not have is an error.
\<close>

fun Execute :: "Template \<Rightarrow> (string \<times> string) list \<Rightarrow> templateError + string" where
  "Execute [] data = Inr []"
| "Execute (TextNode t # ns) data =
     (case Execute ns data of Inl e \<Rightarrow> Inl e | Inr out \<Rightarrow> Inr (t @ out))"
| "Execute (FieldNode f # ns) data =
     (case map_of data f of
        None \<Rightarrow> Inl (CantEvaluateField f)
      | Some v \<Rightarrow> (case Execute ns data of Inl e \<Rightarrow> Inl e | Inr out \<Rightarrow> Inr (v @ out)))"

text \<open>\<open>Render\<close>, lines 74-80.\<close>

definition Render :: "Template \<Rightarrow> (string \<times> string) list \<Rightarrow> string \<times> templateError option" where
  "Render t data =
     (case Execute t data of
        Inl err \<Rightarrow> ([], Some err)
      | Inr out \<Rightarrow> (out, None))"

text \<open>A \<open>Release\<close> as template data: its exported fields.\<close>

definition releaseData :: "Release \<Rightarrow> (string \<times> string) list" where
  "releaseData release =
     [(''Provider'', Provider release), (''Project'', Release.Project release),
      (''Version'', Version release)]"

section \<open>Loading the configuration\<close>

text \<open>
  \<open>envconfig.Process("jelease", &config)\<close>, line 202, on the tags of \<open>Config\<close>: a field
  tagged \<open>NAME\<close> is read from the variable \<open>JELEASE_NAME\<close>, or else from \<open>NAME\<close>; a
  variable that is not set leaves the default, and is an error for a required field. A
  list is split at commas, and a value of white space only gives the empty list. The
  environment is an association list; variables that no field names are not read.
\<close>

definition lookupEnv :: "(string \<times> string) list \<Rightarrow> string \<Rightarrow> string option" where
  "lookupEnv env name =
     (case map_of env (''JELEASE_'' @ name) of
        Some v \<Rightarrow> Some v
      | None \<Rightarrow> map_of env name)"

definition requiredVar :: "(string \<times> string) list \<Rightarrow> string \<Rightarrow> error + string" where
  "requiredVar env name =
     (case lookupEnv env name of
        Some v \<Rightarrow> Inr v
      | None \<Rightarrow> Inl (''required key '' @ name @ '' missing value''))"

fun splitComma :: "string \<Rightarrow> string list" where
  "splitComma [] = [[]]"
| "splitComma (c # cs) =
     (if c = CHR '','' then [] # splitComma cs
      else (case splitComma cs of [] \<Rightarrow> [[c]] | w # ws \<Rightarrow> (c # w) # ws))"

text \<open>
  \<open>len(strings.TrimSpace(value)) == 0\<close>: the value holds only white space, ASCII or
  Unicode (U+0085, U+00A0, U+1680, U+2000 to U+200A, U+2028, U+2029, U+202F, U+205F,
  U+3000, in UTF-8).
\<close>

definition between :: "nat \<Rightarrow> char \<Rightarrow> nat \<Rightarrow> bool" where
  "between lo c hi = (lo \<le> of_char c \<and> (of_char c :: nat) \<le> hi)"

fun onlySpace :: "string \<Rightarrow> bool" where
  "onlySpace [] = True"
| "onlySpace (c # cs) =
     (if c = CHR '' '' \<or> between 9 c 13 then onlySpace cs
      else if c = CHR 0xC2 then
        (case cs of
           d # ds \<Rightarrow> (d = CHR 0x85 \<or> d = CHR 0xA0) \<and> onlySpace ds
         | [] \<Rightarrow> False)
      else if c = CHR 0xE1 then
        (case cs of
           d1 # d2 # ds \<Rightarrow> d1 = CHR 0x9A \<and> d2 = CHR 0x80 \<and> onlySpace ds
         | _ \<Rightarrow> False)
      else if c = CHR 0xE2 then
        (case cs of
           d1 # d2 # ds \<Rightarrow>
             ((d1 = CHR 0x80 \<and> (between 128 d2 138 \<or> d2 = CHR 0xA8 \<or> d2 = CHR 0xA9 \<or> d2 = CHR 0xAF))
              \<or> (d1 = CHR 0x81 \<and> d2 = CHR 0x9F)) \<and> onlySpace ds
         | _ \<Rightarrow> False)
      else if c = CHR 0xE3 then
        (case cs of
           d1 # d2 # ds \<Rightarrow> d1 = CHR 0x80 \<and> d2 = CHR 0x80 \<and> onlySpace ds
         | _ \<Rightarrow> False)
      else False)"

definition Process :: "(string \<times> string) list \<Rightarrow> error + Config" where
  "Process env =
     (let port = (case lookupEnv env ''PORT'' of Some v \<Rightarrow> v | None \<Rightarrow> ''8080'') in
      case requiredVar env ''JIRA_URL'' of Inl e \<Rightarrow> Inl e | Inr url \<Rightarrow>
      case requiredVar env ''JIRA_USER'' of Inl e \<Rightarrow> Inl e | Inr user \<Rightarrow>
      case requiredVar env ''JIRA_TOKEN'' of Inl e \<Rightarrow> Inl e | Inr token \<Rightarrow>
      case requiredVar env ''PROJECT'' of Inl e \<Rightarrow> Inl e | Inr project \<Rightarrow>
      case requiredVar env ''DEFAULT_STATUS'' of Inl e \<Rightarrow> Inl e | Inr st \<Rightarrow>
        Inr \<lparr>Port = port, JiraUrl = url, JiraUser = user, JiraToken = token,
             Project = project, DefaultStatus = st,
             AddLabels = (case lookupEnv env ''ADD_LABELS'' of
                            None \<Rightarrow> []
                          | Some v \<Rightarrow> if onlySpace v then [] else splitComma v)\<rparr>)"

section \<open>Bodies that decode\<close>

text \<open>
  The JSON values that \<open>Decode\<close> accepts, said directly: null, or an object in which
  every member that selects a field of \<open>Release\<close> holds a string or null.
\<close>

definition isField :: "string \<Rightarrow> bool" where
  "isField k = (foldName k = ''provider'' \<or> foldName k = ''project'' \<or> foldName k = ''version'')"

definition stringOrNull :: "json \<Rightarrow> bool" where
  "stringOrNull j = (case j of JString s \<Rightarrow> True | JNull \<Rightarrow> True | _ \<Rightarrow> False)"

definition decodable :: "json \<Rightarrow> bool" where
  "decodable j =
     (case j of
        JNull \<Rightarrow> True
      | JObject ms \<Rightarrow> list_all (\<lambda>(k, v). isField k \<longrightarrow> stringOrNull v) ms
      | _ \<Rightarrow> False)"

section \<open>Sample runs\<close>

definition cfg0 :: Config where
  "cfg0 = \<lparr>Port = ''8080'', JiraUrl = ''https://jira.example.com'', JiraUser = ''bot'',
     JiraToken = ''secret'', Project = ''OPS'', DefaultStatus = ''Open'',
     AddLabels = [''jelease'']\<rparr>"

definition env0 :: "(string \<times> string) list" where
  "env0 = [(''JELEASE_JIRA_URL'', ''https://jira.example.com''), (''JELEASE_JIRA_USER'', ''bot''),
     (''JELEASE_JIRA_TOKEN'', ''secret''), (''JELEASE_PROJECT'', ''OPS''),
     (''JELEASE_DEFAULT_STATUS'', ''Open''), (''JELEASE_ADD_LABELS'', ''jelease''),
     (''JELEASE_DRY_RUN'', ''true'')]"

definition rel0 :: Release where
  "rel0 = \<lparr>Provider = ''github'', Project = ''widget'', Version = ''2.0.0''\<rparr>"

definition post0 :: Request where
  "post0 = \<lparr>Method = ''POST'',
     Body = Inr (JObject [(''provider'', JString ''github''), (''project'', JString ''widget''),
                          (''version'', JString ''2.0.0'')])\<rparr>"

definition mkIssue :: "string \<Rightarrow> string \<Rightarrow> int \<Rightarrow> string \<Rightarrow> Issue" where
  "mkIssue i k t sm = \<lparr>ID = i, Key = k,
     Fields = Some \<lparr>Description = [], Project = ''OPS'', Type = ''Task'', Status = Some ''Open'',
       Labels = [''widget''], Summary = sm, Created = t\<rparr>\<rparr>"

definition ok200 :: Response where
  "ok200 = \<lparr>Response.Body = (''{}'', None)\<rparr>"

definition bad400 :: Response where
  "bad400 = \<lparr>Response.Body = (''bad request'', None)\<rparr>"

text \<open>A tracker that answers every call; the search finds the issues given.\<close>

definition trackerWith :: "Issue list \<Rightarrow> Client" where
  "trackerWith found = \<lparr>
     Search = (\<lambda>q. (found, Some ok200, None)),
     Create = (\<lambda>i. (Some (i\<lparr>ID := ''10001'', Key := ''OPS-1''\<rparr>), Some ok200, None)),
     UpdateIssue = (\<lambda>i u. (Some ok200, None))\<rparr>"

text \<open>Three issues of one project; the second and the third were created together.\<close>

definition three :: "Issue list" where
  "three = [mkIssue ''10001'' ''OPS-1'' 30 ''Update widget to version 1.8.0'',
            mkIssue ''10002'' ''OPS-2'' 10 ''Update widget to version 1.9.0'',
            mkIssue ''10003'' ''OPS-3'' 10 ''Update widget to version 1.9.1'']"

text \<open>A tracker that cannot be reached: no response, only an error.\<close>

definition trackerDown :: Client where
  "trackerDown = \<lparr>
     Search = (\<lambda>q. ([], None, Some ''no response returned'')),
     Create = (\<lambda>i. (None, None, Some ''no response returned'')),
     UpdateIssue = (\<lambda>i u. (None, Some ''no response returned''))\<rparr>"

text \<open>A tracker whose search finds nothing and that refuses to create.\<close>

definition trackerNoCreate :: "Issue option \<Rightarrow> Client" where
  "trackerNoCreate answer = \<lparr>
     Search = (\<lambda>q. ([], Some ok200, None)),
     Create = (\<lambda>i. (answer, Some bad400, Some ''request failed'')),
     UpdateIssue = (\<lambda>i u. (Some ok200, None))\<rparr>"

text \<open>A body without project and version, and one whose project is a number.\<close>

definition postNoProject :: Request where
  "postNoProject = \<lparr>Method = ''POST'', Body = Inr (JObject [(''provider'', JString ''github'')])\<rparr>"

definition postNumber :: Request where
  "postNumber = \<lparr>Method = ''POST'', Body = Inr (JObject [(''project'', JNumber ''5'')])\<rparr>"




text \<open>
  The environment \<open>env0\<close> with a description for created issues, as the README names
  the variable.
\<close>

definition envDescription :: "(string \<times> string) list" where
  "envDescription = env0 @ [(''JELEASE_ISSUE_DESCRIPTION'', ''New release of {{.Project}}'')]"

section \<open>Order of creation\<close>

text \<open>
  An issue was created before another one, or not after it: both have fields, and the
  creation times compare so.
\<close>

definition before :: "Issue \<Rightarrow> Issue \<Rightarrow> bool" where
  "before a b =
     (case (Fields a, Fields b) of
        (Some fa, Some fb) \<Rightarrow> Created fa < Created fb
      | _ \<Rightarrow> False)"

definition notAfter :: "Issue \<Rightarrow> Issue \<Rightarrow> bool" where
  "notAfter a b =
     (case (Fields a, Fields b) of
        (Some fa, Some fb) \<Rightarrow> Created fa \<le> Created fb
      | _ \<Rightarrow> False)"

section \<open>The oldest issue is the first of the earliest ones\<close>

text \<open>
  When the loop ends without panic, it has kept the issue it held unless a later one was
  created strictly before it: the issue it ends with is the first of those with the
  earliest creation time, and the keys collected are those of all the others. It ends
  without panic when every issue has fields.
\<close>

lemma before_trans: "notAfter a b \<Longrightarrow> before b c \<Longrightarrow> before a c"
  by (auto simp add: before_def notAfter_def split: option.splits)

lemma before_notAfter_trans: "before a b \<Longrightarrow> notAfter b c \<Longrightarrow> before a c"
  by (auto simp add: before_def notAfter_def split: option.splits)

lemma before_imp_notAfter: "before a b \<Longrightarrow> notAfter a b"
  by (auto simp add: before_def notAfter_def split: option.splits)

lemma oldestLoop_inv:
  "oldestLoop (Suc i) xs (old, d) = Some (old', d') \<Longrightarrow>
   \<exists>pre post. old # xs = pre @ old' # post
     \<and> (\<forall>x\<in>set pre. before old' x)
     \<and> (\<forall>x\<in>set post. notAfter old' x)
     \<and> mset d' = mset d + mset (map Key (pre @ post))"
proof (induction xs arbitrary: i old d)
  case Nil
  then have "old' = old" "d' = d" by simp_all
  then show ?case by (intro exI[of _ "[]"]) simp
next
  case (Cons x xs)
  from Cons.prems obtain fx fo where fx: "Fields x = Some fx" and fo: "Fields old = Some fo"
    by (auto split: option.splits)
  show ?case
  proof (cases "Created fx < Created fo")
    case True
    with Cons.prems fx fo have "oldestLoop (Suc (Suc i)) xs (x, d @ [Key old]) = Some (old', d')"
      by simp
    from Cons.IH[OF this] obtain pre post where
      dec: "x # xs = pre @ old' # post"
      and lt: "\<forall>y\<in>set pre. before old' y"
      and le: "\<forall>y\<in>set post. notAfter old' y"
      and ms: "mset d' = mset (d @ [Key old]) + mset (map Key (pre @ post))" by blast
    have "notAfter old' x"
    proof (cases pre)
      case Nil with dec fx show ?thesis by (simp add: notAfter_def)
    next
      case (Cons p ps) with dec lt show ?thesis by (auto intro: before_imp_notAfter)
    qed
    moreover from True fx fo have "before x old" by (simp add: before_def)
    ultimately have "before old' old" by (rule before_trans)
    with dec lt le ms show ?thesis
      by (intro exI[of _ "old # pre"] exI[of _ post]) simp
  next
    case False
    with Cons.prems fx fo have "oldestLoop (Suc (Suc i)) xs (old, d @ [Key x]) = Some (old', d')"
      by simp
    from Cons.IH[OF this] obtain pre post where
      dec: "old # xs = pre @ old' # post"
      and lt: "\<forall>y\<in>set pre. before old' y"
      and le: "\<forall>y\<in>set post. notAfter old' y"
      and ms: "mset d' = mset (d @ [Key x]) + mset (map Key (pre @ post))" by blast
    from False fx fo have ox: "notAfter old x" by (simp add: notAfter_def)
    show ?thesis
    proof (cases pre)
      case Nil
      with dec have "old' = old" "post = xs" by simp_all
      with ox le ms Nil show ?thesis
        by (intro exI[of _ "[]"] exI[of _ "x # xs"]) simp
    next
      case (Cons p ps)
      with dec have p: "p = old" and xs: "xs = ps @ old' # post" by simp_all
      from lt Cons p have "before old' old" by simp
      from this ox have "before old' x" by (rule before_notAfter_trans)
      with lt le ms Cons p xs show ?thesis
        by (intro exI[of _ "old # x # ps"] exI[of _ post]) simp
    qed
  qed
qed

lemma oldestLoop_total:
  "\<forall>x\<in>set (old # xs). Fields x \<noteq> None \<Longrightarrow> \<exists>r. oldestLoop (Suc i) xs (old, d) = Some r"
  by (induction xs arbitrary: i old d) (auto split: option.splits)

lemma selectOldest_inv:
  assumes "existingIssues \<noteq> []" and "selectOldest existingIssues = Some (old', d')"
  shows "\<exists>pre post. existingIssues = pre @ old' # post
     \<and> (\<forall>x\<in>set pre. before old' x)
     \<and> (\<forall>x\<in>set post. notAfter old' x)
     \<and> mset d' = mset (map Key (pre @ post))"
proof -
  from assms(1) obtain x xs where e: "existingIssues = x # xs" by (cases existingIssues) auto
  with assms(2) have "oldestLoop (Suc 0) xs (x, []) = Some (old', d')"
    by (simp add: selectOldest_def)
  from oldestLoop_inv[OF this] e show ?thesis by simp
qed

lemma selectOldest_total:
  assumes "existingIssues \<noteq> []" and "\<forall>x\<in>set existingIssues. Fields x \<noteq> None"
  shows "\<exists>old d. selectOldest existingIssues = Some (old, d) \<and> Fields old \<noteq> None"
proof -
  from assms(1) obtain x xs where e: "existingIssues = x # xs" by (cases existingIssues) auto
  with assms(2) obtain r where r: "oldestLoop (Suc 0) xs (x, []) = Some r"
    using oldestLoop_total[of x xs 0 "[]"] by auto
  obtain old d where od: "r = (old, d)" by (cases r)
  with r e have s: "selectOldest existingIssues = Some (old, d)" by (simp add: selectOldest_def)
  from selectOldest_inv[OF assms(1) s] have "old \<in> set existingIssues" by auto
  with assms(2) s show ?thesis by auto
qed


text \<open>\<open>Join\<close> holds each of the strings joined.\<close>

lemma Join_holds:
  "x \<in> set xs \<Longrightarrow> \<exists>a b. Join xs sep = a @ x @ b"
proof (induction xs sep rule: Join.induct)
  case (1 sep)
  then show ?case by simp
next
  case (2 y sep)
  then show ?case by (intro exI[of _ "[]"]) simp
next
  case (3 y z ys sep)
  show ?case
  proof (cases "x = y")
    case True
    then show ?thesis by (intro exI[of _ "[]"] exI[of _ "sep @ Join (z # ys) sep"]) simp
  next
    case False
    with 3 obtain a b where "Join (z # ys) sep = a @ x @ b" by auto
    then show ?thesis by (intro exI[of _ "y @ sep @ a"] exI[of _ b]) simp
  qed
qed


section \<open>Calls that a run makes\<close>

lemma calls_logPrintf [simp]: "calls (logPrintf f a s) = calls s"
  by (simp add: logPrintf_def)

lemma calls_httpError [simp]: "calls (httpError t c s) = calls s"
  by (simp add: httpError_def)

lemma calls_called [simp]: "calls (called c s) = calls s @ [c]"
  by (simp add: called_def)

lemma calls_world0 [simp]: "calls world0 = []"
  by (simp add: world0_def)

lemma logs_logPrintf [simp]: "logs (logPrintf f a s) = logs s @ [Printf f a]"
  by (simp add: logPrintf_def)

lemma logs_httpError [simp]: "logs (httpError t c s) = logs s"
  by (simp add: httpError_def)

lemma logs_called [simp]: "logs (called c s) = logs s"
  by (simp add: called_def)

lemma status_logPrintf [simp]: "status (logPrintf f a s) = status s"
  by (simp add: logPrintf_def)

lemma status_called [simp]: "status (called c s) = status s"
  by (simp add: called_def)

lemma status_httpError [simp]:
  "status (httpError t c s) = (case status s of None \<Rightarrow> Some c | Some c0 \<Rightarrow> Some c0)"
  by (simp add: httpError_def)

lemma status_world0 [simp]: "status world0 = None"
  by (simp add: world0_def)

lemma calls_searchFailed: "calls (snd (searchFailed resp e s)) = calls s"
  by (simp add: searchFailed_def Let_def split: option.splits prod.splits)

lemma calls_logCreated: "calls (snd (logCreated n s)) = calls s"
  by (simp add: logCreated_def split: option.splits)

lemma calls_createIssue:
  "calls (snd (createIssue config jiraClient release s)) = calls s @ [CreateCall (JiraIssue config release)]"
  by (simp add: createIssue_def Let_def calls_logCreated split: option.splits prod.splits)

lemma calls_updateOldest:
  "calls (snd (updateOldest jiraClient release existingIssues s))
     = calls s @
       (case selectOldest existingIssues of
          None \<Rightarrow> []
        | Some (old, d) \<Rightarrow>
            (case Fields old of
               None \<Rightarrow> []
             | Some f \<Rightarrow> [UpdateIssueCall (ID old) (summaryUpdates release)]))"
  by (simp add: updateOldest_def Let_def split: option.splits prod.splits)

lemma logs_updateOldest:
  "selectOldest existingIssues = Some (old, d) \<Longrightarrow> d \<noteq> [] \<Longrightarrow>
   Printf ''Ignoring the following possible duplicate issues in favor of older issue %v: %v''
     [ArgStr (Key old), ArgStr (Join d '', '')]
   \<in> set (logs (snd (updateOldest jiraClient release existingIssues s)))"
  by (simp add: updateOldest_def Let_def split: option.splits prod.splits)

lemma status_searchFailed:
  "status s = None \<Longrightarrow> status (snd (searchFailed resp e s)) \<noteq> Some 400"
  by (simp add: searchFailed_def Let_def split: option.splits prod.splits)

lemma status_createIssue:
  "status s = None \<Longrightarrow> status (snd (createIssue config jiraClient release s)) \<noteq> Some 400"
  by (simp add: createIssue_def logCreated_def Let_def split: option.splits prod.splits)

lemma status_updateOldest:
  "status s = None \<Longrightarrow> status (snd (updateOldest jiraClient release existingIssues s)) \<noteq> Some 400"
  by (simp add: updateOldest_def Let_def split: option.splits prod.splits)

lemma handle_decoded:
  assumes "Method r = ''POST''" and "Decode (Request.Body r) = Inr release"
    and "Search jiraClient (existingIssuesQuery config release) = (existingIssues, resp, err)"
  shows "handlePostWebhook config jiraClient r =
    (case err of
       Some e \<Rightarrow> searchFailed resp e (called (SearchCall (existingIssuesQuery config release)) world0)
     | None \<Rightarrow>
         if existingIssues = []
         then createIssue config jiraClient release (called (SearchCall (existingIssuesQuery config release)) world0)
         else updateOldest jiraClient release existingIssues (called (SearchCall (existingIssuesQuery config release)) world0))"
  using assms by (simp add: handlePostWebhook_def Let_def)

lemma createIssue_ok:
  "Create jiraClient (JiraIssue config release) = (Some n, cresp, None) \<Longrightarrow>
   createIssue config jiraClient release s
     = (Returned, logPrintf (''Created issue %v'' @ [CHR 0x0A]) [ArgStr (ID n)]
                    (called (CreateCall (JiraIssue config release)) s))"
  by (simp add: createIssue_def Let_def logCreated_def)

lemma calls_handle:
  "calls (snd (handlePostWebhook config jiraClient r)) =
     (if Method r \<noteq> ''POST'' then []
      else case Decode (Request.Body r) of
        Inl e \<Rightarrow> []
      | Inr release \<Rightarrow>
          (case Search jiraClient (existingIssuesQuery config release) of
             (existingIssues, resp, err) \<Rightarrow>
               SearchCall (existingIssuesQuery config release) #
               (case err of
                  Some e \<Rightarrow> []
                | None \<Rightarrow>
                    if existingIssues = [] then [CreateCall (JiraIssue config release)]
                    else
                      (case selectOldest existingIssues of
                         None \<Rightarrow> []
                       | Some (old, d) \<Rightarrow>
                           (case Fields old of
                              None \<Rightarrow> []
                            | Some f \<Rightarrow> [UpdateIssueCall (ID old) (summaryUpdates release)])))))"
proof (cases "Method r = ''POST''")
  case False
  then show ?thesis by (simp add: handlePostWebhook_def)
next
  case post: True
  show ?thesis
  proof (cases "Decode (Request.Body r)")
    case (Inl e)
    with post show ?thesis by (simp add: handlePostWebhook_def)
  next
    case (Inr release)
    obtain existingIssues resp err where
      s: "Search jiraClient (existingIssuesQuery config release) = (existingIssues, resp, err)"
      by (cases "Search jiraClient (existingIssuesQuery config release)")
    show ?thesis
      using post Inr s
      by (simp add: handle_decoded[OF post Inr s] calls_searchFailed calls_createIssue
            calls_updateOldest split: option.splits)
  qed
qed

lemma status_400:
  "(status (snd (handlePostWebhook config jiraClient r)) = Some 400)
     = (Method r = ''POST'' \<and> (\<exists>e. Decode (Request.Body r) = Inl e))"
proof (cases "Method r = ''POST''")
  case False
  then show ?thesis by (simp add: handlePostWebhook_def)
next
  case post: True
  show ?thesis
  proof (cases "Decode (Request.Body r)")
    case (Inl e)
    with post show ?thesis by (simp add: handlePostWebhook_def)
  next
    case (Inr release)
    obtain existingIssues resp err where
      s: "Search jiraClient (existingIssuesQuery config release) = (existingIssues, resp, err)"
      by (cases "Search jiraClient (existingIssuesQuery config release)")
    show ?thesis
      using post Inr
      by (simp add: handle_decoded[OF post Inr s] status_searchFailed status_createIssue
            status_updateOldest split: option.splits)
  qed
qed

lemma search_error_with_response:
  assumes "Method r = ''POST''" and "Decode (Request.Body r) = Inr release"
    and "Search jiraClient (existingIssuesQuery config release) = (existingIssues, Some rsp, Some e)"
  shows "fst (handlePostWebhook config jiraClient r) = Returned
     \<and> status (snd (handlePostWebhook config jiraClient r)) = Some 500
     \<and> calls (snd (handlePostWebhook config jiraClient r))
         = [SearchCall (existingIssuesQuery config release)]"
  by (simp add: handle_decoded [OF assms] searchFailed_def Let_def split: prod.splits option.splits)


section \<open>Sample runs, evaluated\<close>

lemma decode_post0: "Decode (Request.Body post0) = Inr rel0"
  by (simp add: post0_def rel0_def Decode_def release0_def storeString_def toLower_def)

lemma method_post0: "Method post0 = ''POST''"
  by (simp add: post0_def)

lemma selectOldest_three: "selectOldest three = Some (three ! 1, [''OPS-1'', ''OPS-3''])"
  by (simp add: selectOldest_def three_def mkIssue_def)

lemma search_found:
  "Search (trackerWith found) (existingIssuesQuery cfg0 rel0) = (found, Some ok200, None)"
  by (simp add: trackerWith_def)

lemma calls_three:
  "calls (snd (handlePostWebhook cfg0 (trackerWith three) post0))
     = [SearchCall (existingIssuesQuery cfg0 rel0), UpdateIssueCall ''10002'' (summaryUpdates rel0)]"
  by (simp add: calls_handle method_post0 decode_post0 search_found selectOldest_three)
     (simp add: three_def mkIssue_def)

lemma calls_none:
  "calls (snd (handlePostWebhook cfg0 (trackerWith []) post0))
     = [SearchCall (existingIssuesQuery cfg0 rel0), CreateCall (JiraIssue cfg0 rel0)]"
  by (simp add: calls_handle method_post0 decode_post0 search_found)

lemma decode_postNoProject:
  "Decode (Request.Body postNoProject) = Inr \<lparr>Provider = ''github'', Project = [], Version = []\<rparr>"
  by (simp add: postNoProject_def Decode_def release0_def storeString_def toLower_def)

lemma Process_env0: "Process env0 = Inr cfg0"
  by (simp add: Process_def env0_def cfg0_def lookupEnv_def requiredVar_def between_def)

lemma Process_envDescription: "Process envDescription = Inr cfg0"
  by (simp add: Process_def envDescription_def env0_def cfg0_def lookupEnv_def requiredVar_def
        between_def)


section \<open>Decoding\<close>

lemma storeString_Inr: "stringOrNull v \<Longrightarrow> \<exists>s. storeString name v old = Inr s"
  by (cases v) (simp_all add: storeString_def stringOrNull_def)

lemma storeString_Inl: "\<not> stringOrNull v \<Longrightarrow> \<exists>e. storeString name v old = Inl e"
  by (cases v) (simp_all add: storeString_def stringOrNull_def)

lemma saveError_simps [simp]:
  "saveError None e = Some e" "saveError (Some e0) e = Some e0"
  by (simp_all add: saveError_def)

lemma decodeMembers_saved:
  "snd (decodeMembers ms (release, Some e0)) = Some e0"
  by (induction ms arbitrary: release)
     (auto simp add: Let_def split: sum.splits)

lemma decodeMembers_ok:
  "(snd (decodeMembers ms (release, None)) = None)
     = list_all (\<lambda>(k, v). isField k \<longrightarrow> stringOrNull v) ms"
proof (induction ms arbitrary: release)
  case Nil
  show ?case by simp
next
  case (Cons m ms)
  obtain k v where m: "m = (k, v)" by (cases m)
  show ?case
  proof (cases "isField k")
    case False
    then show ?thesis using Cons.IH m by (simp add: isField_def Let_def)
  next
    case True
    show ?thesis
    proof (cases "stringOrNull v")
      case sn: True
      then obtain s1 s2 s3 where
        "storeString (foldName k) v (Provider release) = Inr s1"
        "storeString (foldName k) v (Release.Project release) = Inr s2"
        "storeString (foldName k) v (Version release) = Inr s3"
        using storeString_Inr[of v "foldName k" "Provider release"]
          storeString_Inr[of v "foldName k" "Release.Project release"]
          storeString_Inr[of v "foldName k" "Version release"] by blast
      with True sn show ?thesis using Cons.IH m
        by (auto simp add: isField_def Let_def)
    next
      case nsn: False
      then obtain e1 e2 e3 where
        "storeString (foldName k) v (Provider release) = Inl e1"
        "storeString (foldName k) v (Release.Project release) = Inl e2"
        "storeString (foldName k) v (Version release) = Inl e3"
        using storeString_Inl[of v "foldName k" "Provider release"]
          storeString_Inl[of v "foldName k" "Release.Project release"]
          storeString_Inl[of v "foldName k" "Version release"] by blast
      with True nsn show ?thesis using m
        by (auto simp add: isField_def Let_def decodeMembers_saved)
    qed
  qed
qed

lemma Decode_ok: "(\<exists>release. Decode (Inr j) = Inr release) = decodable j"
proof (cases j)
  case (JObject ms)
  obtain rel sv where d: "decodeMembers ms (release0, None) = (rel, sv)"
    by (cases "decodeMembers ms (release0, None)")
  have "(sv = None) = list_all (\<lambda>(k, v). isField k \<longrightarrow> stringOrNull v) ms"
    using decodeMembers_ok[of ms release0] d by simp
  with JObject d show ?thesis
    by (cases sv) (simp_all add: Decode_def decodable_def)
qed (simp_all add: Decode_def decodable_def)


section \<open>Configuration variables that are not read\<close>

lemma lookupEnv_other:
  "name \<noteq> ''DRY_RUN'' \<Longrightarrow> name \<noteq> ''JELEASE_DRY_RUN'' \<Longrightarrow>
   lookupEnv ((''JELEASE_DRY_RUN'', v) # env) name = lookupEnv env name"
  by (simp add: lookupEnv_def split: option.splits)

lemma Process_other: "Process ((''JELEASE_DRY_RUN'', v) # env) = Process env"
  by (simp add: Process_def requiredVar_def lookupEnv_other
        cong: sum.case_cong option.case_cong)


section \<open>The summary\<close>

text \<open>
  C4. The summary rendered for a release, by \<open>IssueSummary\<close> and in the issue that
  \<open>JiraIssue\<close> builds, is the text "Update {project} to version {version}" with the
  project and the version of the release. This holds for every release, so also for
  those with a non-empty project and version.
\<close>

theorem summary_format:
  "IssueSummary release
     = ''Update '' @ Release.Project release @ '' to version '' @ Version release
   \<and> map_option Summary (Fields (JiraIssue config release))
       = Some (''Update '' @ Release.Project release @ '' to version '' @ Version release)"
  by (simp add: IssueSummary_def JiraIssue_def)


section \<open>Create or update\<close>

text \<open>
  When the issues found all have fields, the calls of the run are the search and then
  one update, nothing else. The update goes to the issue \<open>target\<close> of the result list
  such that every issue before it was created strictly later and every issue after it
  was not created earlier: the earliest one, and among equally early ones the first.
\<close>

lemma update_oldest_once_with_fields:
  assumes "Method r = ''POST''" and "Decode (Request.Body r) = Inr release"
    and "Search jiraClient (existingIssuesQuery config release) = (existingIssues, resp, None)"
    and "existingIssues \<noteq> []"
    and "\<forall>x\<in>set existingIssues. Fields x \<noteq> None"
  shows "\<exists>pre target post. existingIssues = pre @ target # post
     \<and> (\<forall>x\<in>set pre. before target x)
     \<and> (\<forall>x\<in>set post. notAfter target x)
     \<and> calls (snd (handlePostWebhook config jiraClient r))
         = [SearchCall (existingIssuesQuery config release),
            UpdateIssueCall (ID target) (summaryUpdates release)]"
proof -
  from selectOldest_total[OF assms(4,5)] obtain old d f where
    sel: "selectOldest existingIssues = Some (old, d)" and f: "Fields old = Some f" by auto
  from selectOldest_inv[OF assms(4) sel] obtain pre post where
    "existingIssues = pre @ old # post"
    "\<forall>x\<in>set pre. before old x"
    "\<forall>x\<in>set post. notAfter old x" by blast
  moreover have "calls (snd (handlePostWebhook config jiraClient r))
         = [SearchCall (existingIssuesQuery config release),
            UpdateIssueCall (ID old) (summaryUpdates release)]"
    using assms(1,2,3,4) sel f by (simp add: calls_handle)
  ultimately show ?thesis by blast
qed




text \<open>
  C2. When the query of a webhook request succeeds and returns no issue, the calls of
  the run are the search and then one create, of the issue rendered for the release:
  no update. The empty result is no error: when the create succeeds the handler
  returns without writing an error status, and logs the issue created.
\<close>

theorem create_once_when_empty:
  assumes "Method r = ''POST''" and "Decode (Request.Body r) = Inr release"
    and "Search jiraClient (existingIssuesQuery config release) = ([], resp, None)"
  shows "calls (snd (handlePostWebhook config jiraClient r))
         = [SearchCall (existingIssuesQuery config release), CreateCall (JiraIssue config release)]
     \<and> (\<forall>n cresp. Create jiraClient (JiraIssue config release) = (Some n, cresp, None) \<longrightarrow>
           fst (handlePostWebhook config jiraClient r) = Returned
           \<and> status (snd (handlePostWebhook config jiraClient r)) = None
           \<and> logs (snd (handlePostWebhook config jiraClient r))
               = [Printf (''Created issue %v'' @ [CHR 0x0A]) [ArgStr (ID n)]])"
  by (simp add: handle_decoded[OF assms] calls_createIssue createIssue_ok
        called_def logPrintf_def world0_def)

theorem create_once_when_empty_witness:
  "Method post0 = ''POST'' \<and> Decode (Request.Body post0) = Inr rel0
   \<and> Search (trackerWith []) (existingIssuesQuery cfg0 rel0) = ([], Some ok200, None)
   \<and> calls (snd (handlePostWebhook cfg0 (trackerWith []) post0))
         = [SearchCall (existingIssuesQuery cfg0 rel0), CreateCall (JiraIssue cfg0 rel0)]
   \<and> fst (handlePostWebhook cfg0 (trackerWith []) post0) = Returned
   \<and> status (snd (handlePostWebhook cfg0 (trackerWith []) post0)) = None"
proof -
  have h3: "Search (trackerWith []) (existingIssuesQuery cfg0 rel0) = ([], Some ok200, None)"
    by (simp add: trackerWith_def)
  have h4: "Create (trackerWith []) (JiraIssue cfg0 rel0)
      = (Some ((JiraIssue cfg0 rel0)\<lparr>ID := ''10001'', Key := ''OPS-1''\<rparr>), Some ok200, None)"
    by (simp add: trackerWith_def)
  from create_once_when_empty [OF method_post0 decode_post0 h3] h4 method_post0 decode_post0 h3
  show ?thesis by blast
qed


section \<open>Duplicates and the update request\<close>

text \<open>
  When two issues or more are found and all have fields, one issue of the result list,
  \<open>target\<close>, the first of the earliest ones, is the only one that a call names. The
  log entry on duplicates names \<open>target\<close> as the issue kept, and its report holds the
  key of every other issue of the list.
\<close>

lemma duplicates_reported_with_fields:
  assumes "Method r = ''POST''" and "Decode (Request.Body r) = Inr release"
    and "Search jiraClient (existingIssuesQuery config release) = (existingIssues, resp, None)"
    and "2 \<le> length existingIssues"
    and "\<forall>x\<in>set existingIssues. Fields x \<noteq> None"
  shows "\<exists>pre target post report. existingIssues = pre @ target # post
     \<and> (\<forall>x\<in>set pre. before target x)
     \<and> (\<forall>x\<in>set post. notAfter target x)
     \<and> Printf ''Ignoring the following possible duplicate issues in favor of older issue %v: %v''
          [ArgStr (Key target), ArgStr report]
        \<in> set (logs (snd (handlePostWebhook config jiraClient r)))
     \<and> (\<forall>x\<in>set (pre @ post). \<exists>a b. report = a @ Key x @ b)
     \<and> calls (snd (handlePostWebhook config jiraClient r))
         = [SearchCall (existingIssuesQuery config release),
            UpdateIssueCall (ID target) (summaryUpdates release)]"
proof -
  from assms(4) have ne: "existingIssues \<noteq> []" by auto
  from selectOldest_total[OF ne assms(5)] obtain old d f where
    sel: "selectOldest existingIssues = Some (old, d)" and f: "Fields old = Some f" by auto
  from selectOldest_inv[OF ne sel] obtain pre post where
    dec: "existingIssues = pre @ old # post"
    and lt: "\<forall>x\<in>set pre. before old x"
    and le: "\<forall>x\<in>set post. notAfter old x"
    and ms: "mset d = mset (map Key (pre @ post))" by blast
  from dec assms(4) have "pre @ post \<noteq> []" by auto
  with ms have dne: "d \<noteq> []" by auto
  have run: "handlePostWebhook config jiraClient r =
      updateOldest jiraClient release existingIssues
        (called (SearchCall (existingIssuesQuery config release)) world0)"
    using ne by (simp add: handle_decoded[OF assms(1,2,3)])
  have lg: "Printf ''Ignoring the following possible duplicate issues in favor of older issue %v: %v''
          [ArgStr (Key old), ArgStr (Join d '', '')]
        \<in> set (logs (snd (handlePostWebhook config jiraClient r)))"
    unfolding run by (rule logs_updateOldest[OF sel dne])
  have keys: "\<forall>x\<in>set (pre @ post). \<exists>a b. Join d '', '' = a @ Key x @ b"
  proof
    fix x assume "x \<in> set (pre @ post)"
    then have "Key x \<in># mset (map Key (pre @ post))" by auto
    with ms have "Key x \<in> set d" by (metis set_mset_mset)
    then show "\<exists>a b. Join d '', '' = a @ Key x @ b" by (rule Join_holds)
  qed
  have cl: "calls (snd (handlePostWebhook config jiraClient r))
         = [SearchCall (existingIssuesQuery config release),
            UpdateIssueCall (ID old) (summaryUpdates release)]"
    using assms(1,2,3) ne sel f by (simp add: calls_handle)
  from dec lt le lg keys cl show ?thesis by blast
qed




text \<open>
  C5. Every update that a run of the handler sends carries the request
  \<open>{"update": {"summary": [{"set": s}]}}\<close> with \<open>s\<close> the summary of the release decoded
  from the body: the summary is the only field set; description, labels and the other
  fields are not in the request.
\<close>

theorem update_sets_only_summary:
  assumes "UpdateIssueCall i u \<in> set (calls (snd (handlePostWebhook config jiraClient r)))"
  shows "\<exists>release. Decode (Request.Body r) = Inr release
     \<and> u = JObject [(''update'',
              JObject [(''summary'', JArray [JObject [(''set'', JString (IssueSummary release))]])])]"
proof (cases "Decode (Request.Body r)")
  case (Inl e)
  with assms show ?thesis by (simp add: calls_handle split: if_splits)
next
  case (Inr release)
  with assms have "u = summaryUpdates release"
    by (auto simp add: calls_handle split: if_splits prod.splits option.splits)
  with Inr show ?thesis by (simp add: summaryUpdates_def)
qed

theorem update_sets_only_summary_witness:
  "UpdateIssueCall ''10002'' (summaryUpdates rel0)
     \<in> set (calls (snd (handlePostWebhook cfg0 (trackerWith three) post0)))
   \<and> (\<exists>release. Decode (Request.Body post0) = Inr release
     \<and> summaryUpdates rel0 = JObject [(''update'',
          JObject [(''summary'', JArray [JObject [(''set'', JString (IssueSummary release))]])])])"
proof -
  have h: "UpdateIssueCall ''10002'' (summaryUpdates rel0)
     \<in> set (calls (snd (handlePostWebhook cfg0 (trackerWith three) post0)))"
    by (simp add: calls_three)
  from update_sets_only_summary [OF h] h show ?thesis by blast
qed


section \<open>Tracker errors\<close>

text \<open>
  C6. A query that fails is meant to end the request with status 500 and without create
  or update. When the client returns the error without a response (the tracker was not
  reached), the handler reads \<open>resp.Body\<close> at line 98 and panics: no create and no
  update is called, and no status 500 is written either.
\<close>

theorem search_error_without_response_panics:
  "handlePostWebhook cfg0 trackerDown post0
     = (Panicked,
        \<lparr>status = None, written = [], logs = [],
         calls = [SearchCall (existingIssuesQuery cfg0 rel0)]\<rparr>)"
proof -
  have s: "Search trackerDown (existingIssuesQuery cfg0 rel0)
      = ([], None, Some ''no response returned'')"
    by (simp add: trackerDown_def)
  show ?thesis
    by (simp add: handle_decoded [OF method_post0 decode_post0 s] searchFailed_def
          called_def world0_def)
qed


text \<open>
  C7. A create that fails is meant to end the request after the status 500. The block
  of lines 113-122 writes the status and does not return: line 123 runs next, reads
  \<open>newIssue.ID\<close> and logs the issue as created. With the nil issue that comes with an
  error the handler panics there; with an issue it logs the success after the error.
\<close>

theorem create_error_falls_through:
  "handlePostWebhook cfg0 (trackerNoCreate None) post0
     = (Panicked,
        \<lparr>status = Some 500, written = ''Internal Server Error'' @ [CHR 0x0A],
         logs = [Printf ''%v: %v. Response body: %v''
                  [ArgStr ''error response from Jira when creating issue'',
                   ArgStr ''request failed'', ArgStr ''bad request'']],
         calls = [SearchCall (existingIssuesQuery cfg0 rel0), CreateCall (JiraIssue cfg0 rel0)]\<rparr>)
   \<and> handlePostWebhook cfg0 (trackerNoCreate (Some (mkIssue ''10001'' ''OPS-1'' 30 []))) post0
     = (Returned,
        \<lparr>status = Some 500, written = ''Internal Server Error'' @ [CHR 0x0A],
         logs = [Printf ''%v: %v. Response body: %v''
                  [ArgStr ''error response from Jira when creating issue'',
                   ArgStr ''request failed'', ArgStr ''bad request''],
                 Printf (''Created issue %v'' @ [CHR 0x0A]) [ArgStr ''10001'']],
         calls = [SearchCall (existingIssuesQuery cfg0 rel0), CreateCall (JiraIssue cfg0 rel0)]\<rparr>)"
proof -
  have s: "Search (trackerNoCreate a) (existingIssuesQuery cfg0 rel0) = ([], Some ok200, None)" for a
    by (simp add: trackerNoCreate_def)
  have c: "Create (trackerNoCreate a) (JiraIssue cfg0 rel0) = (a, Some bad400, Some ''request failed'')" for a
    by (simp add: trackerNoCreate_def)
  show ?thesis
    by (simp add: handle_decoded [OF method_post0 decode_post0 s] createIssue_def c Let_def
          logCreated_def bad400_def called_def world0_def httpError_def logPrintf_def
          StatusText_def mkIssue_def)
qed


section \<open>Description and dry run\<close>

text \<open>
  Every issue that a run of the handler creates has the same description, the text of
  line 54, whatever the release and the configuration.
\<close>

lemma created_description_fixed:
  assumes "CreateCall i \<in> set (calls (snd (handlePostWebhook config jiraClient r)))"
  shows "map_option Description (Fields i)
     = Some ''Update issue generated by https://github.2rioffice.com/platform/jelease using newreleases.io.''"
  using assms
  by (auto simp add: calls_handle JiraIssue_def split: if_splits sum.splits prod.splits option.splits)


text \<open>
  C8. The description of a created issue is meant to be the configured template,
  evaluated on the release. The README names the variable \<open>JELEASE_ISSUE_DESCRIPTION\<close>
  for it. With \<open>New release of {{.Project}}\<close> in that variable, which \<open>Set\<close> parses
  and \<open>Render\<close> turns into "New release of widget" for the sample release, the
  configuration loads as without it, and the issue created has the text of line 54 as
  its description: the variable is not read and no template is evaluated.
\<close>

theorem description_template_ignored:
  "map_of envDescription ''JELEASE_ISSUE_DESCRIPTION'' = Some ''New release of {{.Project}}''
   \<and> Set ''New release of {{.Project}}'' = Inr [TextNode ''New release of '', FieldNode ''Project'']
   \<and> Render [TextNode ''New release of '', FieldNode ''Project''] (releaseData rel0)
       = (''New release of widget'', None)
   \<and> Process envDescription = Inr cfg0
   \<and> calls (snd (handlePostWebhook cfg0 (trackerWith []) post0))
       = [SearchCall (existingIssuesQuery cfg0 rel0), CreateCall (JiraIssue cfg0 rel0)]
   \<and> map_option Description (Fields (JiraIssue cfg0 rel0))
       = Some ''Update issue generated by https://github.2rioffice.com/platform/jelease using newreleases.io.''"
proof -
  have a: "map_of envDescription ''JELEASE_ISSUE_DESCRIPTION'' = Some ''New release of {{.Project}}''"
    by (simp add: envDescription_def env0_def)
  have b: "Set ''New release of {{.Project}}'' = Inr [TextNode ''New release of '', FieldNode ''Project'']"
    by (simp add: Set_def Parse_def textNodes_def fieldAction_def trimBlanks_def isIdentChar_def
          isDigit_def)
  have c: "Render [TextNode ''New release of '', FieldNode ''Project''] (releaseData rel0)
       = (''New release of widget'', None)"
    by (simp add: Render_def releaseData_def rel0_def)
  have d: "map_option Description (Fields (JiraIssue cfg0 rel0))
       = Some ''Update issue generated by https://github.2rioffice.com/platform/jelease using newreleases.io.''"
    by (simp add: JiraIssue_def)
  from a b c d Process_envDescription calls_none show ?thesis by simp
qed


text \<open>
  C9. With dry run enabled no create and no update is meant to reach the tracker
  client. The README names the variable \<open>JELEASE_DRY_RUN\<close> for it. With
  \<open>JELEASE_DRY_RUN=true\<close> in the environment the configuration loads as without it,
  and the create call (no issue found) and the update call (three issues found) reach
  the tracker client: the variable is not read and no call is held back.
\<close>

theorem dry_run_ignored:
  "map_of env0 ''JELEASE_DRY_RUN'' = Some ''true''
   \<and> Process env0 = Inr cfg0
   \<and> calls (snd (handlePostWebhook cfg0 (trackerWith []) post0))
       = [SearchCall (existingIssuesQuery cfg0 rel0), CreateCall (JiraIssue cfg0 rel0)]
   \<and> calls (snd (handlePostWebhook cfg0 (trackerWith three) post0))
       = [SearchCall (existingIssuesQuery cfg0 rel0), UpdateIssueCall ''10002'' (summaryUpdates rel0)]"
  by (simp add: calls_none calls_three Process_env0) (simp add: env0_def)


section \<open>Validation at the webhook\<close>

text \<open>
  C10, as stated, fails: the body \<open>{"project": 5}\<close> is valid JSON, decoding it into
  \<open>Release\<close> fails, the answer is 400 and the tracker is not queried.
\<close>

theorem wrong_type_counterexample:
  "handlePostWebhook cfg0 (trackerWith []) postNumber
     = (Returned,
        \<lparr>status = Some 400, written = ''Bad Request'' @ [CHR 0x0A],
         logs = [Printf (''Couldn't decode request body to json: %v'' @ [CHR 0x0A]
                           @ '' error: %v'' @ [CHR 0x0A])
                  [ArgReader, ArgStr ''json: cannot unmarshal number into Go struct field Release.project of type string'']],
         calls = []\<rparr>)"
  by (simp add: handlePostWebhook_def postNumber_def Decode_def release0_def storeString_def
        toLower_def kindOf_def saveError_def httpError_def logPrintf_def world0_def StatusText_def)


text \<open>
  C10, amended. A body that holds null, or an object whose provider, project and version
  members are strings or null, decodes. For every POST whose body decodes, the handler
  goes on to query the tracker with the release decoded, also when project or version
  is absent or empty: neither is checked. Status 400 is written exactly when the request
  is a POST and decoding fails.
\<close>

theorem decoded_release_not_validated:
  "(decodable j \<longrightarrow> (\<exists>release. Decode (Inr j) = Inr release))
   \<and> (Method r = ''POST'' \<and> Decode (Request.Body r) = Inr release \<longrightarrow>
        (\<exists>rest. calls (snd (handlePostWebhook config jiraClient r))
                  = SearchCall (existingIssuesQuery config release) # rest))
   \<and> ((status (snd (handlePostWebhook config jiraClient r)) = Some 400)
        = (Method r = ''POST'' \<and> (\<exists>e. Decode (Request.Body r) = Inl e)))"
proof (intro conjI impI)
  assume "decodable j"
  then show "\<exists>release. Decode (Inr j) = Inr release" by (simp add: Decode_ok)
next
  assume "Method r = ''POST'' \<and> Decode (Request.Body r) = Inr release"
  then show "\<exists>rest. calls (snd (handlePostWebhook config jiraClient r))
                  = SearchCall (existingIssuesQuery config release) # rest"
    by (simp add: calls_handle split: prod.splits)
next
  show "(status (snd (handlePostWebhook config jiraClient r)) = Some 400)
        = (Method r = ''POST'' \<and> (\<exists>e. Decode (Request.Body r) = Inl e))"
    by (rule status_400)
qed

theorem decoded_release_not_validated_witness:
  "decodable (JObject [(''provider'', JString ''github'')])
   \<and> Method postNoProject = ''POST''
   \<and> Decode (Request.Body postNoProject) = Inr \<lparr>Provider = ''github'', Project = [], Version = []\<rparr>
   \<and> (\<exists>rest. calls (snd (handlePostWebhook cfg0 (trackerWith []) postNoProject))
        = SearchCall (existingIssuesQuery cfg0 \<lparr>Provider = ''github'', Project = [], Version = []\<rparr>) # rest)
   \<and> status (snd (handlePostWebhook cfg0 (trackerWith []) postNoProject)) \<noteq> Some 400"
proof -
  have d: "decodable (JObject [(''provider'', JString ''github'')])"
    by (simp add: decodable_def isField_def stringOrNull_def toLower_def)
  have m: "Method postNoProject = ''POST''" by (simp add: postNoProject_def)
  from decoded_release_not_validated
         [of "JObject [(''provider'', JString ''github'')]" postNoProject
             "\<lparr>Provider = ''github'', Project = [], Version = []\<rparr>" cfg0 "trackerWith []"]
       d m decode_postNoProject
  show ?thesis by simp
qed


end
